theory Spec2Isabelle
  imports Complex_Main "HOL-Library.Multiset" "HOL-Library.Log_Nat"
begin

section \<open>JavaScript idioms shared by the pages\<close>

text \<open>
  Amounts of money are JavaScript numbers in the source. They are modelled as exact
  rationals (\<open>rat\<close>), usage counts as integers (\<open>int\<close>): in the sums of the pages
  the rounding errors of IEEE doubles are outside the model. (The profit margin of the
  reports page is modelled in double precision, since its printed digit depends on it.) A property that may be missing from a JSON document
  is an \<open>option\<close>; \<open>None\<close> is JavaScript's \<open>undefined\<close>. An object used as a
  dictionary is a map; its keys are taken to be ordinary own keys (service identifiers),
  not names inherited from \<open>Object.prototype\<close>.

  \<open>xs.reduce(f, init)\<close> is \<open>foldl f init xs\<close>, \<open>xs.filter(p)\<close> is \<open>filter p xs\<close>.
\<close>

definition js_or :: "'a::zero option \<Rightarrow> 'a \<Rightarrow> 'a" where
  \<comment> \<open>\<open>v || d\<close> on a number that may be missing: \<open>undefined\<close> and \<open>0\<close> are falsy.\<close>
  "js_or v d = (case v of None \<Rightarrow> d | Some n \<Rightarrow> if n = 0 then d else n)"

section \<open>Subscriptions page (\<open>Subscriptions\<close>): total monthly recurring revenue\<close>

record subscription =
  subscription_id :: string
  sub_customer_id :: string
  plan_name :: string
  mrr :: rat
  sub_status :: string

definition totalMRR :: "subscription list \<Rightarrow> rat" where
  \<comment> \<open>\<open>subscriptions.filter(s => s.status === "active").reduce((sum, s) => sum + s.mrr, 0)\<close>\<close>
  "totalMRR subscriptions =
     foldl (\<lambda>sum s. sum + mrr s) 0
       (filter (\<lambda>s. sub_status s = ''active'') subscriptions)"

section \<open>Invoice management page (\<open>InvoiceManagement\<close>): summary cards\<close>

record invoice =
  invoice_id :: string
  inv_customer_id :: string
  amount :: rat
  paid_amount :: "rat option"
  inv_status :: string

definition totalReceivable :: "invoice list \<Rightarrow> rat" where
  \<comment> \<open>\<open>invoices.filter(inv => inv.status !== "paid")
        .reduce((sum, inv) => sum + (inv.amount - (inv.paid_amount || 0)), 0)\<close>\<close>
  "totalReceivable invoices =
     foldl (\<lambda>sum inv. sum + (amount inv - js_or (paid_amount inv) 0)) 0
       (filter (\<lambda>inv. inv_status inv \<noteq> ''paid'') invoices)"

definition totalPaid :: "invoice list \<Rightarrow> rat" where
  \<comment> \<open>\<open>invoices.filter(inv => inv.status === "paid").reduce((sum, inv) => sum + inv.amount, 0)\<close>\<close>
  "totalPaid invoices =
     foldl (\<lambda>sum inv. sum + amount inv) 0
       (filter (\<lambda>inv. inv_status inv = ''paid'') invoices)"

definition balance_due :: "invoice \<Rightarrow> rat" where
  \<comment> \<open>The remaining balance of the claim: amount minus paid amount, a missing paid
      amount read as 0.\<close>
  "balance_due i = amount i - (case paid_amount i of None \<Rightarrow> 0 | Some p \<Rightarrow> p)"

section \<open>Usage tracking page (\<open>UsageTracking\<close>): aggregation of usage logs\<close>

record usage_log =
  log_customer_id :: string
  service :: string
  log_count :: int
  log_year :: int
  log_month :: int

definition aggregateUsage_step :: "(string \<rightharpoonup> int) \<Rightarrow> usage_log \<Rightarrow> (string \<rightharpoonup> int)" where
  \<comment> \<open>\<open>aggregated[log.service] = (aggregated[log.service] || 0) + log.count\<close>\<close>
  "aggregateUsage_step aggregated l =
     aggregated(service l \<mapsto> js_or (aggregated (service l)) 0 + log_count l)"

definition aggregateUsage :: "usage_log list \<Rightarrow> (string \<rightharpoonup> int)" where
  \<comment> \<open>\<open>const aggregated = {}; usageLogs.forEach(log => ...); return aggregated\<close>\<close>
  "aggregateUsage usageLogs = foldl aggregateUsage_step Map.empty usageLogs"

definition usage_of :: "usage_log list \<Rightarrow> string \<Rightarrow> int" where
  \<comment> \<open>The sum the claim speaks of: the counts of all logs with the given service key.\<close>
  "usage_of usageLogs k = sum_list (map log_count (filter (\<lambda>l. service l = k) usageLogs))"

section \<open>Reports page (\<open>Reports\<close>): profit margin\<close>

record analytics =
  total_revenue :: "rat option"
  total_expenses :: "rat option"
  net_profit :: "rat option"

text \<open>
  The margin is computed in double precision before \<open>toFixed(1)\<close> prints it, and the
  printed digit depends on that: \<open>2300 / 8000 * 100\<close> is slightly below 28.75 in doubles
  and prints as 28.7. So the arithmetic of this page is modelled as it is done. A
  \<open>double\<close> is a finite value (a rational; the two zeros are not told apart), an
  infinity or NaN. \<open>round_double\<close> rounds a rational to the nearest binary64 value,
  ties to even: 53 significant bits, the least exponent \<open>-1022\<close> (below it the spacing
  stays \<open>2^-1074\<close>), and infinity from \<open>2^1024\<close> on.
\<close>

datatype double = Finite rat | PosInfinity | NegInfinity | NaN

definition ilog2 :: "rat \<Rightarrow> int" where
  \<comment> \<open>For \<open>a > 0\<close>, the integer \<open>k\<close> with \<open>2^k \<le> a < 2^(k+1)\<close>.\<close>
  "ilog2 a = (if 1 \<le> a then bitlen \<lfloor>a\<rfloor> - 1 else - bitlen (\<lceil>1 / a\<rceil> - 1))"

definition round_half_even :: "rat \<Rightarrow> int" where
  "round_half_even q =
     (let f = \<lfloor>q\<rfloor>; d = q - of_int f
      in if d < 1 / 2 then f else if 1 / 2 < d then f + 1
         else if even f then f else f + 1)"

definition round_double :: "rat \<Rightarrow> double" where
  "round_double x =
     (if x = 0 then Finite 0
      else
        let a = \<bar>x\<bar>;
            e = max (ilog2 a) (- 1022) - 52;
            v = of_int (round_half_even (a / power_int 2 e)) * power_int 2 e
        in if 2 ^ 1024 \<le> v then (if x < 0 then NegInfinity else PosInfinity)
           else Finite (if x < 0 then - v else v))"

definition to_number :: "rat option \<Rightarrow> double" where
  \<comment> \<open>A property read as a number: \<open>undefined\<close> becomes NaN.\<close>
  "to_number v = (case v of None \<Rightarrow> NaN | Some x \<Rightarrow> Finite x)"

definition js_div :: "double \<Rightarrow> rat \<Rightarrow> double option" where
  \<comment> \<open>\<open>a / b\<close> for a finite divisor \<open>b\<close>; \<open>None\<close> marks a division by zero (which in
      JavaScript yields an infinity or NaN).\<close>
  "js_div a b =
     (if b = 0 then None
      else Some (case a of
                   Finite x \<Rightarrow> round_double (x / b)
                 | PosInfinity \<Rightarrow> if 0 < b then PosInfinity else NegInfinity
                 | NegInfinity \<Rightarrow> if 0 < b then NegInfinity else PosInfinity
                 | NaN \<Rightarrow> NaN))"

definition js_mul :: "double \<Rightarrow> rat \<Rightarrow> double" where
  \<comment> \<open>\<open>a * c\<close> for a finite factor \<open>c\<close>.\<close>
  "js_mul a c =
     (case a of
        Finite x \<Rightarrow> round_double (x * c)
      | PosInfinity \<Rightarrow> if c = 0 then NaN else if 0 < c then PosInfinity else NegInfinity
      | NegInfinity \<Rightarrow> if c = 0 then NaN else if 0 < c then NegInfinity else PosInfinity
      | NaN \<Rightarrow> NaN)"

text \<open>
  \<open>profitMargin\<close> is either the number \<open>0\<close> or the string that \<open>toFixed(1)\<close> returns.
  \<open>Fixed1 neg n\<close> stands for the decimal string with one fractional digit whose digits
  are those of \<open>n\<close> (the last one after the point), preceded by \<open>-\<close> when \<open>neg\<close>;
  \<open>ToStringOf x\<close> for the exponent notation \<open>toFixed\<close> falls back to from \<open>10^21\<close> on;
  \<open>InfinityText neg\<close> for \<open>"Infinity"\<close> and \<open>"-Infinity"\<close>; \<open>NaNText\<close> for \<open>"NaN"\<close>;
  \<open>ZeroDivisorText\<close> for whatever a division by zero would have printed.
\<close>

datatype js_value =
  Number rat | Fixed1 bool nat | ToStringOf rat | InfinityText bool | NaNText | ZeroDivisorText

definition toFixed1 :: "double \<Rightarrow> js_value" where
  \<comment> \<open>\<open>x.toFixed(1)\<close>: on a finite value the sign is split off, then the integer \<open>n\<close> with
      \<open>n / 10\<close> closest to \<open>|x|\<close> is taken, the larger one on a tie.\<close>
  "toFixed1 d =
     (case d of
        Finite x \<Rightarrow>
          if 10 ^ 21 \<le> \<bar>x\<bar> then ToStringOf x
          else Fixed1 (x < 0) (nat \<lfloor>\<bar>x\<bar> * 10 + 1 / 2\<rfloor>)
      | PosInfinity \<Rightarrow> InfinityText False
      | NegInfinity \<Rightarrow> InfinityText True
      | NaN \<Rightarrow> NaNText)"

definition fixed1_value :: "bool \<Rightarrow> nat \<Rightarrow> rat" where
  \<comment> \<open>The number a \<open>Fixed1\<close> string denotes.\<close>
  "fixed1_value neg n = (if neg then - (of_nat n / 10) else of_nat n / 10)"

definition profitMargin :: "analytics option \<Rightarrow> js_value" where
  \<comment> \<open>\<open>analytics?.total_revenue > 0
        ? ((analytics.net_profit / analytics.total_revenue) * 100).toFixed(1) : 0\<close>;
      \<open>analytics\<close> is \<open>null\<close> until the overview has been fetched.\<close>
  "profitMargin a =
     (case a of
        None \<Rightarrow> Number 0
      | Some an \<Rightarrow>
          (case total_revenue an of
             None \<Rightarrow> Number 0
           | Some r \<Rightarrow>
               if r > 0 then
                 (case js_div (to_number (net_profit an)) r of
                    None \<Rightarrow> ZeroDivisorText
                  | Some q \<Rightarrow> toFixed1 (js_mul q 100))
               else Number 0))"

section \<open>Invoices page (\<open>Invoices\<close>): the create-invoice form\<close>

text \<open>
  The form keeps every field as text. \<open>ParseFloat t\<close> is the number \<open>parseFloat(t)\<close>
  and \<open>ToISOString t\<close> the string \<open>new Date(t).toISOString()\<close>, both left unevaluated.
  The due date comes from a date input, whose value is the empty text or a date string
  \<open>YYYY-MM-DD\<close>. On the empty text \<open>new Date\<close> gives an invalid date, \<open>toISOString\<close>
  raises \<open>RangeError\<close> and nothing is sent; a date string with a four-digit year is a
  valid date in every engine. What \<open>new Date\<close> makes of any other text depends on the
  engine: there the model gives no result (\<open>None\<close>).
\<close>

datatype parsed_number = ParseFloat string
datatype iso_date = ToISOString string
datatype js_error = RangeError

definition digit_val :: "char \<Rightarrow> nat option" where
  "digit_val c = map_of (zip ''0123456789'' [0, 1, 2, 3, 4, 5, 6, 7, 8, 9]) c"

definition number_of :: "string \<Rightarrow> nat option" where
  \<comment> \<open>The value of a non-empty text of decimal digits.\<close>
  "number_of cs =
     (if cs \<noteq> [] \<and> list_all (\<lambda>c. digit_val c \<noteq> None) cs
      then Some (foldl (\<lambda>n c. 10 * n + the (digit_val c)) 0 cs) else None)"

definition days_in_month :: "nat \<Rightarrow> nat \<Rightarrow> nat" where
  "days_in_month y m =
     (if m = 2 then (if y mod 4 = 0 \<and> (y mod 400 = 0 \<or> y mod 100 \<noteq> 0) then 29 else 28)
      else if m = 4 \<or> m = 6 \<or> m = 9 \<or> m = 11 then 30 else 31)"

definition valid_date_string :: "string \<Rightarrow> bool" where
  \<comment> \<open>\<open>YYYY-MM-DD\<close> with a year from 0001 on, a month and a day of that month.\<close>
  "valid_date_string s \<longleftrightarrow>
     length s = 10 \<and> s ! 4 = CHR ''-'' \<and> s ! 7 = CHR ''-'' \<and>
     (case (number_of (take 4 s), number_of (take 2 (drop 5 s)), number_of (drop 8 s)) of
        (Some y, Some m, Some d) \<Rightarrow>
          1 \<le> y \<and> 1 \<le> m \<and> m \<le> 12 \<and> 1 \<le> d \<and> d \<le> days_in_month y m
      | _ \<Rightarrow> False)"

record invoice_form =
  form_customer_id :: string
  form_amount :: string
  form_status :: string
  form_items :: "(string \<times> string) list"
  form_due_date :: string

record invoice_body =
  body_customer_id :: string
  body_amount :: parsed_number
  body_status :: string
  body_items :: "(string \<times> parsed_number) list"
  body_due_date :: iso_date

definition initial_formData :: invoice_form where
  \<comment> \<open>The \<open>useState\<close> initial value, restored by \<open>resetForm\<close>.\<close>
  "initial_formData =
     \<lparr>form_customer_id = [], form_amount = [], form_status = ''pending'',
      form_items = [([], [])], form_due_date = []\<rparr>"

definition status_options :: "string list" where
  \<comment> \<open>The \<open>option\<close> values of the status \<open>select\<close>.\<close>
  "status_options = [''pending'', ''paid'', ''overdue'']"

definition select_status :: "invoice_form \<Rightarrow> string \<Rightarrow> invoice_form" where
  \<comment> \<open>\<open>onChange={(e) => setFormData({ ...formData, status: e.target.value })}\<close>\<close>
  "select_status formData v = formData\<lparr>form_status := v\<rparr>"

definition handleSubmit_body :: "invoice_form \<Rightarrow> (js_error + invoice_body) option" where
  \<comment> \<open>The JSON document \<open>handleSubmit\<close> posts to \<open>/api/invoices\<close>:
      \<open>{...formData, amount: parseFloat(formData.amount),
         items: formData.items.map(item => ({description: item.description,
                                             amount: parseFloat(item.amount)})),
         due_date: new Date(formData.due_date).toISOString()}\<close>\<close>
  "handleSubmit_body formData =
     (if form_due_date formData = [] then Some (Inl RangeError)
      else if valid_date_string (form_due_date formData) then
        Some (Inr \<lparr>body_customer_id = form_customer_id formData,
                    body_amount = ParseFloat (form_amount formData),
                    body_status = form_status formData,
                    body_items = map (\<lambda>(d, a). (d, ParseFloat a)) (form_items formData),
                    body_due_date = ToISOString (form_due_date formData)\<rparr>)
      else None)"

definition submitted_status :: "invoice_form \<Rightarrow> string option" where
  \<comment> \<open>The status of the invoice document that is sent, if one is sent.\<close>
  "submitted_status formData =
     (case handleSubmit_body formData of
        Some (Inr b) \<Rightarrow> Some (body_status b)
      | _ \<Rightarrow> None)"

definition getStatusColor :: "string \<Rightarrow> string" where
  \<comment> \<open>The \<open>switch\<close> of \<open>InvoiceManagement\<close>.\<close>
  "getStatusColor st =
     (if st = ''paid'' then ''bg-green-100 text-green-700''
      else if st = ''partially_paid'' then ''bg-yellow-100 text-yellow-700''
      else if st = ''pending'' then ''bg-blue-100 text-blue-700''
      else if st = ''overdue'' then ''bg-red-100 text-red-700''
      else ''bg-slate-100 text-slate-700'')"

definition status_follows_payment :: "string \<Rightarrow> rat \<Rightarrow> rat \<Rightarrow> bool" where
  \<comment> \<open>The invariant as the specification words it, for a status, a paid amount and a
      total amount.\<close>
  "status_follows_payment st paid total_amount \<longleftrightarrow>
     ((st = ''paid'') = (total_amount \<le> paid)) \<and>
     ((st = ''partially_paid'') = (0 < paid \<and> paid < total_amount)) \<and>
     ((st = ''pending'') = (paid = 0))"

definition overdue_form :: invoice_form where
  \<comment> \<open>A filled-in form with \<open>Overdue\<close> chosen in the status select.\<close>
  "overdue_form =
     select_status
       \<lparr>form_customer_id = ''cust_1'', form_amount = ''100'', form_status = ''pending'',
        form_items = [(''Setup'', ''100'')], form_due_date = ''2025-01-31''\<rparr>
       ''overdue''"

section \<open>Billing core of the backend\<close>

text \<open>
  The pages above call a REST backend (\<open>server.py\<close>, \<open>invoice_calculator.py\<close>,
  \<open>daily_reminders.py\<close>) whose code is not among the sources. Its invoice calculator,
  payment ledger and reminder classifier are modelled here from the specification
  (sections 3, 4, 6 and 7), with times as seconds and amounts as rationals.
\<close>

datatype error =
    MissingRateError string
  | InvalidAmountError
  | DuplicateInvoiceError
  | NotFoundError
  | NothingToBill

subsection \<open>Invoice calculator\<close>

datatype item_type = variable | fixed

record line_item =
  item_service :: string
  item_kind :: item_type
  quantity :: int
  rate :: rat
  line_amount :: rat

record calculated_invoice =
  items :: "line_item list"
  subtotal :: rat
  tax_amount :: rat
  total_amount :: rat

definition period_logs :: "usage_log list \<Rightarrow> string \<Rightarrow> int \<Rightarrow> int \<Rightarrow> usage_log list" where
  \<comment> \<open>Modelled from the spec: the stored usage logs of one customer and (year, month)
      period; the backend query is missing.\<close>
  "period_logs stored c y m =
     filter (\<lambda>l. log_customer_id l = c \<and> log_year l = y \<and> log_month l = m) stored"

definition variable_item ::
    "(string \<rightharpoonup> rat) \<Rightarrow> usage_log list \<Rightarrow> string \<Rightarrow> error + line_item option" where
  \<comment> \<open>Modelled from the spec: the line of one variable service (the invoice calculator
      is missing): unit rate times summed count, \<open>MissingRateError\<close> if the rate is absent
      and the usage is positive.\<close>
  "variable_item rate_card logs k =
     (let n = usage_of logs k in
      case rate_card k of
        None \<Rightarrow> if 0 < n then Inl (MissingRateError k) else Inr None
      | Some r \<Rightarrow>
          Inr (Some \<lparr>item_service = k, item_kind = variable, quantity = n, rate = r,
                     line_amount = r * of_int n\<rparr>))"

fun variable_items ::
    "(string \<rightharpoonup> rat) \<Rightarrow> usage_log list \<Rightarrow> string list \<Rightarrow> error + line_item list" where
  \<comment> \<open>Modelled from the spec: the lines of all variable services present in the usage
      logs (the invoice calculator is missing); the first missing rate aborts.\<close>
  "variable_items rate_card logs [] = Inr []"
| "variable_items rate_card logs (k # ks) =
     (case variable_item rate_card logs k of
        Inl e \<Rightarrow> Inl e
      | Inr it \<Rightarrow>
          (case variable_items rate_card logs ks of
             Inl e \<Rightarrow> Inl e
           | Inr its \<Rightarrow> Inr (case it of None \<Rightarrow> its | Some i \<Rightarrow> i # its)))"

definition fixed_item :: "string \<times> rat \<Rightarrow> line_item" where
  \<comment> \<open>Modelled from the spec: the line of a fixed monthly fee, emitted regardless of usage.\<close>
  "fixed_item f =
     \<lparr>item_service = fst f, item_kind = fixed, quantity = 1, rate = snd f,
      line_amount = snd f\<rparr>"

definition generateMonthlyInvoice ::
    "(string \<rightharpoonup> rat) \<Rightarrow> (string \<times> rat) list \<Rightarrow> usage_log list \<Rightarrow>
     string \<Rightarrow> int \<Rightarrow> int \<Rightarrow> error + calculated_invoice" where
  \<comment> \<open>Modelled from the spec: the invoice calculator of section 4.1, which is missing
      from the sources: variable lines, fixed lines, subtotal, 18% tax, total.\<close>
  "generateMonthlyInvoice rate_card fixed_fees stored c y m =
     (let logs = period_logs stored c y m in
      case variable_items rate_card logs (remdups (map service logs)) of
        Inl e \<Rightarrow> Inl e
      | Inr vs \<Rightarrow>
          (let its = vs @ map fixed_item fixed_fees;
               sub = sum_list (map line_amount its);
               tax = sub * 18 / 100
           in if its = [] then Inl NothingToBill
              else Inr \<lparr>items = its, subtotal = sub, tax_amount = tax,
                        total_amount = sub + tax\<rparr>))"

subsection \<open>Payment ledger\<close>

datatype invoice_status = pending | partially_paid | paid

datatype account_status = active | suspended | shutdown

record payment_record =
  pay_amount :: rat
  pay_method :: string
  pay_reference :: string
  pay_notes :: "string option"
  pay_timestamp :: int

record ledger_invoice =
  ledger_invoice_id :: string
  owner_id :: string
  invoice_total :: rat
  invoice_paid :: rat
  invoice_status :: invoice_status
  payment_history :: "payment_record list"
  due_date :: int

record ledger =
  ledger_invoices :: "string \<rightharpoonup> ledger_invoice"
  accounts :: "string \<rightharpoonup> account_status"

definition status_of :: "rat \<Rightarrow> rat \<Rightarrow> invoice_status" where
  \<comment> \<open>Modelled from the spec: the status as a function of paid amount and total amount
      (sections 3 and 8); the ledger code is missing.\<close>
  "status_of p t =
     (if t \<le> p then paid else if 0 < p then partially_paid else pending)"

definition status_name :: "invoice_status \<Rightarrow> string" where
  \<comment> \<open>The status as the text an invoice document carries.\<close>
  "status_name s =
     (case s of pending \<Rightarrow> ''pending'' | partially_paid \<Rightarrow> ''partially_paid''
      | paid \<Rightarrow> ''paid'')"

definition recordPayment ::
    "ledger \<Rightarrow> string \<Rightarrow> rat \<Rightarrow> string \<Rightarrow> string \<Rightarrow> string option \<Rightarrow> int \<Rightarrow>
     (error + ledger_invoice) \<times> ledger" where
  \<comment> \<open>Modelled from the spec: \<open>recordPayment\<close> of sections 4.2, 6 and 7, which is missing
      from the sources. The result is paired with the state after the call.\<close>
  "recordPayment st iid amt meth ref notes now =
     (if amt \<le> 0 then (Inl InvalidAmountError, st)
      else
        case ledger_invoices st iid of
          None \<Rightarrow> (Inl NotFoundError, st)
        | Some i \<Rightarrow>
            (let p = invoice_paid i + amt;
                 i' = i\<lparr>invoice_paid := p,
                        invoice_status := status_of p (invoice_total i),
                        payment_history := payment_history i @
                          [\<lparr>pay_amount = amt, pay_method = meth, pay_reference = ref,
                            pay_notes = notes, pay_timestamp = now\<rparr>]\<rparr>;
                 accs = (if invoice_status i' = paid \<and>
                            accounts st (owner_id i) = Some suspended
                         then (accounts st)(owner_id i \<mapsto> active)
                         else accounts st)
             in (Inr i',
                 st\<lparr>ledger_invoices := (ledger_invoices st)(iid \<mapsto> i'),
                    accounts := accs\<rparr>)))"

subsection \<open>Reminder classifier\<close>

datatype reminder_action =
  send_reminder_email | send_final_reminder | suspend_account | shutdown_account

definition days_overdue :: "int \<Rightarrow> int \<Rightarrow> int" where
  \<comment> \<open>Modelled from the spec: now minus due date in whole days, both in seconds.\<close>
  "days_overdue now due = (now - due) div 86400"

definition overdue_action :: "int \<Rightarrow> reminder_action option" where
  \<comment> \<open>Modelled from the spec: the threshold table of section 4.3; the classifier code
      is missing.\<close>
  "overdue_action d =
     (if 30 \<le> d then Some shutdown_account
      else if 15 \<le> d then Some suspend_account
      else if 7 \<le> d then Some send_final_reminder
      else if 3 \<le> d then Some send_reminder_email
      else None)"

definition classify :: "int \<Rightarrow> ledger_invoice \<Rightarrow> reminder_action option" where
  \<comment> \<open>Modelled from the spec: the overdue action recommended for one invoice; paid
      invoices are not classified.\<close>
  "classify now i =
     (if invoice_status i = paid then None
      else overdue_action (days_overdue now (due_date i)))"

section \<open>Example data\<close>

definition sub_pro :: subscription where
  "sub_pro = \<lparr>subscription_id = ''sub_1'', sub_customer_id = ''cust_1'',
      plan_name = ''Pro'', mrr = 1200, sub_status = ''active''\<rparr>"

definition sub_cancelled :: subscription where
  "sub_cancelled = \<lparr>subscription_id = ''sub_2'', sub_customer_id = ''cust_1'',
      plan_name = ''Basic'', mrr = 500, sub_status = ''cancelled''\<rparr>"

definition sub_team :: subscription where
  "sub_team = \<lparr>subscription_id = ''sub_3'', sub_customer_id = ''cust_2'',
      plan_name = ''Team'', mrr = 300, sub_status = ''active''\<rparr>"

definition sub_expired :: subscription where
  "sub_expired = \<lparr>subscription_id = ''sub_4'', sub_customer_id = ''cust_2'',
      plan_name = ''Legacy'', mrr = 900, sub_status = ''expired''\<rparr>"

definition inv_pending :: invoice where
  "inv_pending = \<lparr>invoice_id = ''inv_1'', inv_customer_id = ''cust_1'', amount = 1000,
      paid_amount = None, inv_status = ''pending''\<rparr>"

definition inv_partial :: invoice where
  "inv_partial = \<lparr>invoice_id = ''inv_2'', inv_customer_id = ''cust_1'', amount = 8850,
      paid_amount = Some 5000, inv_status = ''partially_paid''\<rparr>"

definition inv_paid :: invoice where
  "inv_paid = \<lparr>invoice_id = ''inv_3'', inv_customer_id = ''cust_2'', amount = 700,
      paid_amount = Some 700, inv_status = ''paid''\<rparr>"

definition log_orders_a :: usage_log where
  "log_orders_a = \<lparr>log_customer_id = ''cust_1'', service = ''orders'', log_count = 1000,
      log_year = 2025, log_month = 1\<rparr>"

definition log_users :: usage_log where
  "log_users = \<lparr>log_customer_id = ''cust_1'', service = ''users'', log_count = 5,
      log_year = 2025, log_month = 1\<rparr>"

definition log_orders_b :: usage_log where
  "log_orders_b = \<lparr>log_customer_id = ''cust_1'', service = ''orders'', log_count = 500,
      log_year = 2025, log_month = 1\<rparr>"

definition analytics_profit :: analytics where
  "analytics_profit = \<lparr>total_revenue = Some 300000, total_expenses = Some 200000,
      net_profit = Some 100000\<rparr>"

definition analytics_empty :: analytics where
  "analytics_empty = \<lparr>total_revenue = Some 0, total_expenses = Some 0,
      net_profit = Some 0\<rparr>"

definition analytics_margin :: analytics where
  \<comment> \<open>Revenue 8000 and net profit 2300: the page shows a margin of 28.7.\<close>
  "analytics_margin = \<lparr>total_revenue = Some 8000, total_expenses = Some 5700,
      net_profit = Some 2300\<rparr>"

definition orders_log :: "string \<Rightarrow> int \<Rightarrow> int \<Rightarrow> usage_log" where
  \<comment> \<open>The usage \<open>{orders: 1500}\<close> of a customer in a period.\<close>
  "orders_log c y m = \<lparr>log_customer_id = c, service = ''orders'', log_count = 1500,
      log_year = y, log_month = m\<rparr>"

definition first_payment :: payment_record where
  "first_payment = \<lparr>pay_amount = 5000, pay_method = ''bank_transfer'',
      pay_reference = ''TXN123'', pay_notes = None, pay_timestamp = 1000\<rparr>"

definition open_invoice :: ledger_invoice where
  \<comment> \<open>An invoice of 8850 on which 5000 has been paid; due at time 0.\<close>
  "open_invoice = \<lparr>ledger_invoice_id = ''inv_1'', owner_id = ''cust_1'',
      invoice_total = 8850, invoice_paid = 5000, invoice_status = partially_paid,
      payment_history = [first_payment], due_date = 0\<rparr>"

definition example_ledger :: ledger where
  "example_ledger = \<lparr>ledger_invoices = [''inv_1'' \<mapsto> open_invoice],
      accounts = [''cust_1'' \<mapsto> suspended, ''cust_2'' \<mapsto> shutdown]\<rparr>"

section \<open>Helper lemmas\<close>

lemma js_or_zero_eq: "js_or v 0 = (case v of None \<Rightarrow> 0 | Some n \<Rightarrow> n)"
  by (simp add: js_or_def split: option.splits)

lemma reduce_add: "foldl (\<lambda>sum x. sum + f x) a xs = a + sum_list (map f xs)"
  for a :: "'a::monoid_add"
  by (induction xs arbitrary: a) (simp_all add: add.assoc)

lemma totalMRR_eq: "totalMRR subs = sum_list (map mrr (filter (\<lambda>s. sub_status s = ''active'') subs))"
  by (simp add: totalMRR_def reduce_add)

lemma totalReceivable_eq:
  "totalReceivable invs = sum_list (map balance_due (filter (\<lambda>inv. inv_status inv \<noteq> ''paid'') invs))"
proof -
  have "(\<lambda>inv. amount inv - js_or (paid_amount inv) 0) = balance_due"
    by (rule ext) (simp add: balance_due_def js_or_zero_eq)
  then show ?thesis
    unfolding totalReceivable_def reduce_add by simp
qed

lemma totalPaid_eq:
  "totalPaid invs = sum_list (map amount (filter (\<lambda>inv. inv_status inv = ''paid'') invs))"
  by (simp add: totalPaid_def reduce_add)

lemma aggregateUsage_step_lookup:
  "aggregateUsage_step m l k =
     (if k = service l then Some (js_or (m k) 0 + log_count l) else m k)"
  by (simp add: aggregateUsage_step_def)

lemma usage_of_Cons:
  "usage_of (l # logs) k = (if service l = k then log_count l else 0) + usage_of logs k"
  by (simp add: usage_of_def)

lemma usage_of_absent: "k \<notin> service ` set logs \<Longrightarrow> usage_of logs k = 0"
  by (induction logs) (auto simp: usage_of_Cons usage_of_def)

lemma aggregate_fold:
  "foldl aggregateUsage_step m logs k =
     (if k \<in> service ` set logs then Some (js_or (m k) 0 + usage_of logs k) else m k)"
proof (induction logs arbitrary: m)
  case Nil
  show ?case by simp
next
  case (Cons l logs)
  have "foldl aggregateUsage_step m (l # logs) k =
          foldl aggregateUsage_step (aggregateUsage_step m l) logs k"
    by simp
  also have "\<dots> = (if k \<in> service ` set logs
                    then Some (js_or (aggregateUsage_step m l k) 0 + usage_of logs k)
                    else aggregateUsage_step m l k)"
    by (rule Cons.IH)
  also have "\<dots> = (if k \<in> service ` set (l # logs)
                    then Some (js_or (m k) 0 + usage_of (l # logs) k) else m k)"
    by (auto simp: aggregateUsage_step_lookup usage_of_Cons usage_of_absent js_or_zero_eq)
  finally show ?case .
qed

lemma aggregateUsage_lookup:
  "aggregateUsage logs k = (if k \<in> service ` set logs then Some (usage_of logs k) else None)"
  by (simp add: aggregateUsage_def aggregate_fold js_or_def)

lemma usage_of_mset: "mset logs' = mset logs \<Longrightarrow> usage_of logs' k = usage_of logs k"
proof -
  assume eq: "mset logs' = mset logs"
  have "usage_of xs k = sum_mset (image_mset log_count (filter_mset (\<lambda>l. service l = k) (mset xs)))"
    for xs
    unfolding usage_of_def by (metis mset_filter mset_map sum_mset_sum_list)
  with eq show ?thesis by simp
qed

lemma aggregateUsage_mset:
  assumes "mset logs' = mset logs"
  shows "aggregateUsage logs' = aggregateUsage logs"
proof (rule ext)
  fix k
  have sets: "set logs' = set logs"
    using assms by (rule mset_eq_setD)
  have sums: "usage_of logs' k = usage_of logs k"
    using assms by (rule usage_of_mset)
  show "aggregateUsage logs' k = aggregateUsage logs k"
    by (simp only: aggregateUsage_lookup sets sums)
qed

lemma round_tenths_bound:
  fixes y :: rat
  assumes "0 \<le> y"
  shows "\<bar>of_nat (nat \<lfloor>y * 10 + 1 / 2\<rfloor>) / 10 - y\<bar> \<le> 1 / 20"
proof -
  define z :: rat where "z = of_int \<lfloor>y * 10 + 1 / 2\<rfloor>"
  have nonneg: "0 \<le> \<lfloor>y * 10 + 1 / 2\<rfloor>" using assms by simp
  have lo: "z \<le> y * 10 + 1 / 2" unfolding z_def by (rule of_int_floor_le)
  have hi: "y * 10 + 1 / 2 < z + 1" unfolding z_def by linarith
  have "(of_nat (nat \<lfloor>y * 10 + 1 / 2\<rfloor>) :: rat) = z"
    unfolding z_def using nonneg by simp
  moreover have "\<bar>z / 10 - y\<bar> \<le> 1 / 20"
    using lo hi by linarith
  ultimately show ?thesis by simp
qed

lemma toFixed1_close:
  assumes "\<bar>x\<bar> < 10 ^ 21"
  shows "\<exists>neg n. toFixed1 (Finite x) = Fixed1 neg n \<and> \<bar>fixed1_value neg n - x\<bar> \<le> 1 / 20"
proof -
  let ?n = "nat \<lfloor>\<bar>x\<bar> * 10 + 1 / 2\<rfloor>"
  have eq: "toFixed1 (Finite x) = Fixed1 (x < 0) ?n"
    using assms by (simp add: toFixed1_def)
  have b: "\<bar>of_nat ?n / 10 - \<bar>x\<bar>\<bar> \<le> 1 / 20"
    by (rule round_tenths_bound) simp
  have "\<bar>fixed1_value (x < 0) ?n - x\<bar> \<le> 1 / 20"
  proof (cases "x < 0")
    case True
    then have "fixed1_value (x < 0) ?n - x = - (of_nat ?n / 10 - \<bar>x\<bar>)"
      by (simp add: fixed1_value_def)
    with b show ?thesis by (simp only: abs_minus_cancel)
  next
    case False
    then have "fixed1_value (x < 0) ?n - x = of_nat ?n / 10 - \<bar>x\<bar>"
      by (simp add: fixed1_value_def)
    with b show ?thesis by simp
  qed
  with eq show ?thesis by blast
qed

lemma profitMargin_positive:
  assumes "total_revenue an = Some r" "0 < r" "net_profit an = Some p"
  shows "profitMargin (Some an) = toFixed1 (js_mul (round_double (p / r)) 100)"
  using assms by (simp add: profitMargin_def js_div_def to_number_def)

lemma profitMargin_zero:
  assumes "\<not> (\<exists>an r. a = Some an \<and> total_revenue an = Some r \<and> 0 < r)"
  shows "profitMargin a = Number 0"
  using assms by (auto simp: profitMargin_def split: option.splits)

lemma toFixed1_no_zero_divisor: "toFixed1 d \<noteq> ZeroDivisorText"
  by (simp add: toFixed1_def split: double.splits)

lemma profitMargin_no_zero_division: "profitMargin a \<noteq> ZeroDivisorText"
  by (auto simp: profitMargin_def js_div_def toFixed1_no_zero_divisor split: option.splits)

lemma status_of_follows:
  assumes "0 \<le> p" "0 < t"
  shows "status_follows_payment (status_name (status_of p t)) p t"
  using assms by (auto simp: status_follows_payment_def status_name_def status_of_def)

lemma form_status_reachable:
  "set vs \<subseteq> set status_options \<Longrightarrow>
     form_status (foldl select_status initial_formData vs) \<in> set status_options"
  by (induction vs rule: rev_induct)
     (simp_all add: select_status_def initial_formData_def status_options_def)

lemma generateMonthlyInvoice_Inr:
  assumes "generateMonthlyInvoice rc fees stored c y m = Inr ci"
  shows "subtotal ci = sum_list (map line_amount (items ci))
         \<and> tax_amount ci = subtotal ci * 18 / 100
         \<and> total_amount ci = subtotal ci + tax_amount ci"
  using assms
  by (auto simp: generateMonthlyInvoice_def Let_def split: sum.splits if_splits)

lemma generate_example:
  "generateMonthlyInvoice [''orders'' \<mapsto> 5] [] [orders_log c y m] c y m =
     Inr \<lparr>items = [\<lparr>item_service = ''orders'', item_kind = variable, quantity = 1500,
                    rate = 5, line_amount = 7500\<rparr>],
          subtotal = 7500, tax_amount = 1350, total_amount = 8850\<rparr>"
  by (simp add: generateMonthlyInvoice_def period_logs_def orders_log_def variable_item_def
      usage_of_def Let_def)

lemma recordPayment_rejects:
  "amt \<le> 0 \<Longrightarrow> recordPayment st iid amt meth ref notes now = (Inl InvalidAmountError, st)"
  by (simp add: recordPayment_def)

lemma recordPayment_accepts:
  assumes "0 < amt" "ledger_invoices st iid = Some i"
  shows "recordPayment st iid amt meth ref notes now =
     (Inr (i\<lparr>invoice_paid := invoice_paid i + amt,
             invoice_status := status_of (invoice_paid i + amt) (invoice_total i),
             payment_history := payment_history i @
               [\<lparr>pay_amount = amt, pay_method = meth, pay_reference = ref,
                 pay_notes = notes, pay_timestamp = now\<rparr>]\<rparr>),
      st\<lparr>ledger_invoices := (ledger_invoices st)(iid \<mapsto>
             i\<lparr>invoice_paid := invoice_paid i + amt,
               invoice_status := status_of (invoice_paid i + amt) (invoice_total i),
               payment_history := payment_history i @
                 [\<lparr>pay_amount = amt, pay_method = meth, pay_reference = ref,
                   pay_notes = notes, pay_timestamp = now\<rparr>]\<rparr>),
         accounts :=
           (if status_of (invoice_paid i + amt) (invoice_total i) = paid \<and>
               accounts st (owner_id i) = Some suspended
            then (accounts st)(owner_id i \<mapsto> active) else accounts st)\<rparr>)"
  using assms by (simp add: recordPayment_def Let_def)

lemma recordPayment_shutdown:
  "accounts st c = Some shutdown \<Longrightarrow>
     accounts (snd (recordPayment st iid amt meth ref notes now)) c = Some shutdown"
  by (auto simp: recordPayment_def Let_def split: option.splits)

lemma recordPayment_reactivates:
  assumes "0 < amt" "ledger_invoices st iid = Some i"
    "accounts st (owner_id i) = Some suspended" "invoice_total i \<le> invoice_paid i + amt"
  shows "accounts (snd (recordPayment st iid amt meth ref notes now)) (owner_id i) = Some active"
    and "invoice_status (the (ledger_invoices (snd (recordPayment st iid amt meth ref notes now)) iid)) = paid"
  using assms by (simp_all add: recordPayment_accepts status_of_def)

section \<open>The claims settled on the pages' code\<close>

text \<open>
  C7. The total Monthly Recurring Revenue of the subscriptions page is the sum of the
  \<open>mrr\<close> field over exactly the subscriptions whose status is \<open>active\<close>: a subscription
  with any other status (cancelled and expired are the other two the page offers)
  contributes nothing, wherever it stands in the list.
\<close>

theorem totalMRR_active_sum:
  "totalMRR subs = sum_list (map mrr (filter (\<lambda>s. sub_status s = ''active'') subs))
   \<and> (sub_status s \<noteq> ''active'' \<longrightarrow> totalMRR (xs @ s # ys) = totalMRR (xs @ ys))"
  by (simp add: totalMRR_eq)

theorem totalMRR_active_sum_witness:
  "sub_status sub_cancelled \<noteq> ''active''
   \<and> totalMRR ([sub_pro] @ sub_cancelled # [sub_team, sub_expired])
       = totalMRR ([sub_pro] @ [sub_team, sub_expired])
   \<and> totalMRR [sub_pro, sub_cancelled, sub_team, sub_expired] = 1500"
proof -
  have c: "sub_status sub_cancelled \<noteq> ''active''"
    by (simp add: sub_cancelled_def)
  have v: "totalMRR [sub_pro, sub_team, sub_expired] = 1500"
    by (simp add: totalMRR_def sub_pro_def sub_team_def sub_expired_def)
  from totalMRR_active_sum [of "[]" sub_cancelled "[sub_pro]" "[sub_team, sub_expired]"] c
  have "totalMRR ([sub_pro] @ sub_cancelled # [sub_team, sub_expired])
          = totalMRR ([sub_pro] @ [sub_team, sub_expired])"
    by blast
  with c v show ?thesis by simp
qed

text \<open>
  C10. In the invoice management summary, Total Receivable is the sum, over the invoices
  whose status is not \<open>paid\<close>, of amount minus paid amount (a missing paid amount counts
  as 0), and Total Collected is the sum of the amounts of the invoices whose status is
  \<open>paid\<close>. So a partially paid invoice adds its remaining balance to Total Receivable and
  nothing to Total Collected.
\<close>

theorem invoice_summary_totals:
  "totalReceivable invs =
     sum_list (map balance_due (filter (\<lambda>i. inv_status i \<noteq> ''paid'') invs))
   \<and> totalPaid invs = sum_list (map amount (filter (\<lambda>i. inv_status i = ''paid'') invs))
   \<and> (inv_status p = ''partially_paid'' \<longrightarrow>
        totalReceivable (xs @ p # ys) = totalReceivable (xs @ ys) + balance_due p
        \<and> totalPaid (xs @ p # ys) = totalPaid (xs @ ys))"
  by (simp add: totalReceivable_eq totalPaid_eq)

theorem invoice_summary_totals_witness:
  "inv_status inv_partial = ''partially_paid''
   \<and> totalReceivable ([inv_pending] @ inv_partial # [inv_paid])
       = totalReceivable ([inv_pending] @ [inv_paid]) + balance_due inv_partial
   \<and> totalPaid ([inv_pending] @ inv_partial # [inv_paid]) = totalPaid ([inv_pending] @ [inv_paid])
   \<and> balance_due inv_partial = 3850
   \<and> totalReceivable [inv_pending, inv_partial, inv_paid] = 4850
   \<and> totalPaid [inv_pending, inv_partial, inv_paid] = 700"
proof -
  have s: "inv_status inv_partial = ''partially_paid''"
    by (simp add: inv_partial_def)
  have b: "balance_due inv_partial = 3850"
    by (simp add: balance_due_def inv_partial_def)
  have r: "totalReceivable [inv_pending, inv_partial, inv_paid] = 4850"
    by (simp add: totalReceivable_def js_or_def inv_pending_def inv_partial_def inv_paid_def)
  have c: "totalPaid [inv_pending, inv_partial, inv_paid] = 700"
    by (simp add: totalPaid_def inv_pending_def inv_partial_def inv_paid_def)
  from invoice_summary_totals [of "[]" inv_partial "[inv_pending]" "[inv_paid]"] s
  have "totalReceivable ([inv_pending] @ inv_partial # [inv_paid])
          = totalReceivable ([inv_pending] @ [inv_paid]) + balance_due inv_partial"
    and "totalPaid ([inv_pending] @ inv_partial # [inv_paid])
          = totalPaid ([inv_pending] @ [inv_paid])"
    by blast+
  with s b r c show ?thesis by simp
qed

text \<open>
  C8. For every list of usage logs with integer counts, the aggregated usage of a service
  key that occurs in the logs is the sum of the counts of all logs with that key (logs
  of one service are added up, none overwrites another), a key that does not occur has
  no entry, and the aggregate is the same for every permutation of the list.
\<close>

theorem aggregateUsage_sums_counts:
  "(k \<in> service ` set logs \<longrightarrow> aggregateUsage logs k = Some (usage_of logs k))
   \<and> (k \<notin> service ` set logs \<longrightarrow> aggregateUsage logs k = None)
   \<and> (mset logs' = mset logs \<longrightarrow> aggregateUsage logs' = aggregateUsage logs)"
proof (intro conjI impI)
  assume "k \<in> service ` set logs"
  then show "aggregateUsage logs k = Some (usage_of logs k)"
    by (simp add: aggregateUsage_lookup)
next
  assume "k \<notin> service ` set logs"
  then show "aggregateUsage logs k = None"
    by (simp add: aggregateUsage_lookup)
next
  assume "mset logs' = mset logs"
  then show "aggregateUsage logs' = aggregateUsage logs"
    by (rule aggregateUsage_mset)
qed

theorem aggregateUsage_sums_counts_witness:
  "''orders'' \<in> service ` set [log_orders_a, log_users, log_orders_b]
   \<and> aggregateUsage [log_orders_a, log_users, log_orders_b] ''orders'' = Some 1500
   \<and> mset [log_orders_b, log_orders_a, log_users] = mset [log_orders_a, log_users, log_orders_b]
   \<and> aggregateUsage [log_orders_b, log_orders_a, log_users]
       = aggregateUsage [log_orders_a, log_users, log_orders_b]"
proof -
  have perm: "mset [log_orders_b, log_orders_a, log_users]
                = mset [log_orders_a, log_users, log_orders_b]"
    by simp
  have mem: "''orders'' \<in> service ` set [log_orders_a, log_users, log_orders_b]"
    by (simp add: log_orders_a_def)
  have val: "usage_of [log_orders_a, log_users, log_orders_b] ''orders'' = 1500"
    by (simp add: usage_of_def log_orders_a_def log_users_def log_orders_b_def)
  from aggregateUsage_sums_counts
         [of "''orders''" "[log_orders_a, log_users, log_orders_b]"
             "[log_orders_b, log_orders_a, log_users]"] mem perm
  have "aggregateUsage [log_orders_a, log_users, log_orders_b] ''orders''
          = Some (usage_of [log_orders_a, log_users, log_orders_b] ''orders'')"
    and "aggregateUsage [log_orders_b, log_orders_a, log_users]
          = aggregateUsage [log_orders_a, log_users, log_orders_b]"
    by blast+
  with mem perm val show ?thesis by simp
qed

text \<open>
  C9. The profit margin of the reports page is net profit divided by total revenue,
  times 100, computed in double precision and rounded to one decimal by \<open>toFixed(1)\<close>
  (what is printed is within 0.05 of the computed product), and this only when the
  total revenue is positive; it is the number 0 in every other case, in particular when
  the total revenue is zero or absent or the overview is not loaded; and the division
  is never evaluated with a zero divisor.
\<close>

theorem profitMargin_guarded:
  "(total_revenue an = Some r \<and> 0 < r \<and> net_profit an = Some p \<longrightarrow>
      profitMargin (Some an) = toFixed1 (js_mul (round_double (p / r)) 100)
      \<and> (js_mul (round_double (p / r)) 100 = Finite x \<and> \<bar>x\<bar> < 10 ^ 21 \<longrightarrow>
           (\<exists>neg n. profitMargin (Some an) = Fixed1 neg n \<and>
              \<bar>fixed1_value neg n - x\<bar> \<le> 1 / 20)))
   \<and> (\<not> (\<exists>an r. a = Some an \<and> total_revenue an = Some r \<and> 0 < r) \<longrightarrow>
        profitMargin a = Number 0)
   \<and> profitMargin a \<noteq> ZeroDivisorText"
proof (intro conjI impI)
  assume h: "total_revenue an = Some r \<and> 0 < r \<and> net_profit an = Some p"
  then show eq: "profitMargin (Some an) = toFixed1 (js_mul (round_double (p / r)) 100)"
    by (simp add: profitMargin_positive)
  assume "js_mul (round_double (p / r)) 100 = Finite x \<and> \<bar>x\<bar> < 10 ^ 21"
  then have v: "js_mul (round_double (p / r)) 100 = Finite x" and b: "\<bar>x\<bar> < 10 ^ 21"
    by blast+
  from b show "\<exists>neg n. profitMargin (Some an) = Fixed1 neg n \<and>
         \<bar>fixed1_value neg n - x\<bar> \<le> 1 / 20"
    unfolding eq v by (rule toFixed1_close)
next
  assume "\<not> (\<exists>an r. a = Some an \<and> total_revenue an = Some r \<and> 0 < r)"
  then show "profitMargin a = Number 0" by (rule profitMargin_zero)
next
  show "profitMargin a \<noteq> ZeroDivisorText" by (rule profitMargin_no_zero_division)
qed

theorem profitMargin_guarded_witness:
  "total_revenue analytics_margin = Some 8000 \<and> (0::rat) < 8000
   \<and> net_profit analytics_margin = Some 2300
   \<and> js_mul (round_double (2300 / 8000)) 100 = Finite (8092405580431359 / 281474976710656)
   \<and> \<bar>8092405580431359 / 281474976710656 :: rat\<bar> < 10 ^ 21
   \<and> (\<exists>neg n. profitMargin (Some analytics_margin) = Fixed1 neg n \<and>
         \<bar>fixed1_value neg n - 8092405580431359 / 281474976710656\<bar> \<le> 1 / 20)
   \<and> profitMargin (Some analytics_margin) = Fixed1 False 287
   \<and> \<not> (\<exists>an r. Some analytics_empty = Some an \<and> total_revenue an = Some r \<and> 0 < r)
   \<and> profitMargin (Some analytics_empty) = Number 0"
proof -
  have h: "total_revenue analytics_margin = Some 8000 \<and> (0::rat) < 8000
      \<and> net_profit analytics_margin = Some 2300"
    by (simp add: analytics_margin_def)
  have m: "js_mul (round_double (2300 / 8000)) 100
             = Finite (8092405580431359 / 281474976710656)"
    by code_simp
  have b: "\<bar>8092405580431359 / 281474976710656 :: rat\<bar> < 10 ^ 21"
    by simp
  have z: "\<not> (\<exists>an r. Some analytics_empty = Some an \<and> total_revenue an = Some r \<and> 0 < r)"
    by (simp add: analytics_empty_def)
  have v: "profitMargin (Some analytics_margin) = Fixed1 False 287"
    by code_simp
  from profitMargin_guarded
         [of analytics_margin 8000 2300 "8092405580431359 / 281474976710656"
             "Some analytics_empty"] h m b z
  have "\<exists>neg n. profitMargin (Some analytics_margin) = Fixed1 neg n \<and>
         \<bar>fixed1_value neg n - 8092405580431359 / 281474976710656\<bar> \<le> 1 / 20"
    and "profitMargin (Some analytics_empty) = Number 0"
    by blast+
  with h m b z v show ?thesis by blast
qed

text \<open>
  C1 (as stated). Every invoice's status would be the function of its paid amount and
  total amount: paid iff paid \<open>\<ge>\<close> total, partially paid iff 0 < paid < total, pending iff
  paid = 0, and never a freely chosen status such as \<open>overdue\<close>. The create-invoice form
  refutes this: with \<open>Overdue\<close> selected it sends an invoice document of amount 100 and
  status \<open>overdue\<close> that has no paid amount (read as 0 by the invoice pages).
\<close>

theorem create_form_status_counterexample:
  "submitted_status overdue_form = Some ''overdue''
   \<and> \<not> status_follows_payment ''overdue'' (js_or None 0) 100"
proof -
  have "valid_date_string (form_due_date overdue_form)"
    by code_simp
  then have "submitted_status overdue_form = Some ''overdue''"
    by (simp add: submitted_status_def handleSubmit_body_def)
       (simp add: overdue_form_def select_status_def)
  moreover have "\<not> status_follows_payment ''overdue'' (js_or None 0) 100"
    by (simp add: status_follows_payment_def js_or_def)
  ultimately show ?thesis by blast
qed

text \<open>
  C1 (amended). The status is the stated function of paid amount and total amount on
  every invoice as the payment ledger leaves it: after a recorded payment on an invoice
  with a positive total and a paid amount that was not negative, status is paid iff
  paid \<open>\<ge>\<close> total, partially paid iff 0 < paid < total, pending iff paid = 0 (as the
  status function gives for every paid amount \<open>\<ge>\<close> 0 and total > 0). The exception is an
  invoice created through the create-invoice form: the document sent carries the status
  the form holds, whatever the amounts: \<open>pending\<close> initially, and after any choices in
  the status select one of its options \<open>pending\<close>, \<open>paid\<close>, \<open>overdue\<close>, namely the one
  chosen last. The invoice pages treat \<open>overdue\<close> as a status of its own:
  \<open>getStatusColor\<close> gives \<open>paid\<close>, \<open>partially_paid\<close>, \<open>pending\<close> and \<open>overdue\<close> four
  different colour classes, all different from the default one (which any other
  status, \<open>draft\<close> say, gets).
\<close>

theorem status_follows_payment_except_form:
  "(0 \<le> p \<and> 0 < t \<longrightarrow> status_follows_payment (status_name (status_of p t)) p t)
   \<and> (0 < amt \<and> ledger_invoices st iid = Some i \<and> 0 \<le> invoice_paid i \<and> 0 < invoice_total i \<longrightarrow>
        (\<exists>i'. fst (recordPayment st iid amt meth ref notes now) = Inr i'
           \<and> ledger_invoices (snd (recordPayment st iid amt meth ref notes now)) iid = Some i'
           \<and> status_follows_payment (status_name (invoice_status i'))
                (invoice_paid i') (invoice_total i')))
   \<and> (valid_date_string (form_due_date f) \<longrightarrow>
        submitted_status f = Some (form_status f) \<and>
        submitted_status (select_status f v) = Some v)
   \<and> form_status initial_formData = ''pending''
   \<and> (set vs \<subseteq> set status_options \<longrightarrow>
        form_status (foldl select_status initial_formData vs) \<in> set status_options)
   \<and> distinct (map getStatusColor
        [''paid'', ''partially_paid'', ''pending'', ''overdue'', ''draft''])"
proof (intro conjI impI)
  assume "0 \<le> p \<and> 0 < t"
  then show "status_follows_payment (status_name (status_of p t)) p t"
    by (simp add: status_of_follows)
next
  assume h: "0 < amt \<and> ledger_invoices st iid = Some i \<and> 0 \<le> invoice_paid i \<and> 0 < invoice_total i"
  then have "status_follows_payment
               (status_name (status_of (invoice_paid i + amt) (invoice_total i)))
               (invoice_paid i + amt) (invoice_total i)"
    by (intro status_of_follows) simp_all
  with h show "\<exists>i'. fst (recordPayment st iid amt meth ref notes now) = Inr i'
           \<and> ledger_invoices (snd (recordPayment st iid amt meth ref notes now)) iid = Some i'
           \<and> status_follows_payment (status_name (invoice_status i'))
                (invoice_paid i') (invoice_total i')"
    by (simp add: recordPayment_accepts)
next
  assume d: "valid_date_string (form_due_date f)"
  then have "form_due_date f \<noteq> []"
    by (auto simp: valid_date_string_def)
  with d show "submitted_status f = Some (form_status f)"
    and "submitted_status (select_status f v) = Some v"
    by (simp_all add: submitted_status_def handleSubmit_body_def select_status_def)
next
  show "form_status initial_formData = ''pending''"
    by (simp add: initial_formData_def)
next
  assume "set vs \<subseteq> set status_options"
  then show "form_status (foldl select_status initial_formData vs) \<in> set status_options"
    by (rule form_status_reachable)
next
  show "distinct (map getStatusColor
        [''paid'', ''partially_paid'', ''pending'', ''overdue'', ''draft''])"
    by (simp add: getStatusColor_def)
qed

theorem status_follows_payment_except_form_witness:
  "(0::rat) \<le> 5000 \<and> (0::rat) < 8850
   \<and> status_follows_payment (status_name (status_of 5000 8850)) 5000 8850
   \<and> status_of 5000 8850 = partially_paid
   \<and> (0::rat) < 3850 \<and> ledger_invoices example_ledger ''inv_1'' = Some open_invoice
   \<and> 0 \<le> invoice_paid open_invoice \<and> 0 < invoice_total open_invoice
   \<and> (\<exists>i'. fst (recordPayment example_ledger ''inv_1'' 3850 ''upi'' ''TXN456'' None 2000) = Inr i'
         \<and> status_follows_payment (status_name (invoice_status i'))
              (invoice_paid i') (invoice_total i'))
   \<and> valid_date_string (form_due_date overdue_form)
   \<and> submitted_status overdue_form = Some (form_status overdue_form)
   \<and> submitted_status (select_status overdue_form ''paid'') = Some ''paid''
   \<and> set [''paid'', ''overdue''] \<subseteq> set status_options
   \<and> form_status (foldl select_status initial_formData [''paid'', ''overdue''])
        \<in> set status_options"
proof -
  have a: "(0::rat) \<le> 5000 \<and> (0::rat) < 8850" by simp
  have q: "status_of 5000 8850 = partially_paid"
    by (simp add: status_of_def)
  have l: "(0::rat) < 3850 \<and> ledger_invoices example_ledger ''inv_1'' = Some open_invoice
      \<and> 0 \<le> invoice_paid open_invoice \<and> 0 < invoice_total open_invoice"
    by (simp add: example_ledger_def open_invoice_def)
  have d: "valid_date_string (form_due_date overdue_form)"
    by code_simp
  have s: "set [''paid'', ''overdue''] \<subseteq> set status_options"
    by (simp add: status_options_def)
  note inst = status_follows_payment_except_form
      [of 5000 8850 3850 example_ledger "''inv_1''" open_invoice "''upi''" "''TXN456''" None 2000
          overdue_form "''paid''" "[''paid'', ''overdue'']"]
  from inst a have c1: "status_follows_payment (status_name (status_of 5000 8850)) 5000 8850"
    by blast
  from inst l have c2: "\<exists>i'. fst (recordPayment example_ledger ''inv_1'' 3850 ''upi'' ''TXN456'' None 2000) = Inr i'
         \<and> status_follows_payment (status_name (invoice_status i'))
              (invoice_paid i') (invoice_total i')"
    by blast
  from inst d have c3: "submitted_status overdue_form = Some (form_status overdue_form)"
    "submitted_status (select_status overdue_form ''paid'') = Some ''paid''"
    by blast+
  from inst s have c4: "form_status (foldl select_status initial_formData [''paid'', ''overdue''])
        \<in> set status_options"
    by blast
  from a q l d s c1 c2 c3 c4 show ?thesis by blast
qed

section \<open>The claims settled on the model of the backend\<close>

text \<open>
  C2. Generating the monthly invoice for the usage \<open>{orders: 1500}\<close> at the rate card
  \<open>{orders: 5.0}\<close> with no fixed fees yields subtotal 7500, tax 1350 and total 8850.
  In general, on every generated invoice the subtotal is the sum of the (pre-tax) line
  amounts, the tax is 18% of the subtotal and the total is subtotal plus tax.
\<close>

theorem generateMonthlyInvoice_tax_total:
  "(generateMonthlyInvoice rc fees stored c y m = Inr ci \<longrightarrow>
      subtotal ci = sum_list (map line_amount (items ci))
      \<and> tax_amount ci = subtotal ci * 18 / 100
      \<and> total_amount ci = subtotal ci + tax_amount ci)
   \<and> (\<exists>ex. generateMonthlyInvoice [''orders'' \<mapsto> 5] [] [orders_log c y m] c y m = Inr ex
         \<and> subtotal ex = 7500 \<and> tax_amount ex = 1350 \<and> total_amount ex = 8850)"
proof (intro conjI impI)
  assume "generateMonthlyInvoice rc fees stored c y m = Inr ci"
  then show "subtotal ci = sum_list (map line_amount (items ci))"
    and "tax_amount ci = subtotal ci * 18 / 100"
    and "total_amount ci = subtotal ci + tax_amount ci"
    by (simp_all add: generateMonthlyInvoice_Inr)
next
  show "\<exists>ex. generateMonthlyInvoice [''orders'' \<mapsto> 5] [] [orders_log c y m] c y m = Inr ex
         \<and> subtotal ex = 7500 \<and> tax_amount ex = 1350 \<and> total_amount ex = 8850"
    by (simp add: generate_example)
qed

theorem generateMonthlyInvoice_tax_total_witness:
  "generateMonthlyInvoice [''orders'' \<mapsto> 5] [(''platform_fees'', 5000)]
      [orders_log ''cust_1'' 2025 1] ''cust_1'' 2025 1
     = Inr \<lparr>items = [\<lparr>item_service = ''orders'', item_kind = variable, quantity = 1500,
                       rate = 5, line_amount = 7500\<rparr>,
                      \<lparr>item_service = ''platform_fees'', item_kind = fixed, quantity = 1,
                       rate = 5000, line_amount = 5000\<rparr>],
             subtotal = 12500, tax_amount = 2250, total_amount = 14750\<rparr>
   \<and> (2250::rat) = 12500 * 18 / 100 \<and> (14750::rat) = 12500 + 2250"
proof -
  let ?ci = "\<lparr>items = [\<lparr>item_service = ''orders'', item_kind = variable, quantity = 1500,
                       rate = 5, line_amount = 7500\<rparr>,
                      \<lparr>item_service = ''platform_fees'', item_kind = fixed, quantity = 1,
                       rate = 5000, line_amount = 5000\<rparr>],
             subtotal = 12500, tax_amount = 2250, total_amount = 14750\<rparr>"
  have g: "generateMonthlyInvoice [''orders'' \<mapsto> 5] [(''platform_fees'', 5000)]
      [orders_log ''cust_1'' 2025 1] ''cust_1'' 2025 1 = Inr ?ci"
    by (simp add: generateMonthlyInvoice_def period_logs_def orders_log_def variable_item_def
        fixed_item_def usage_of_def Let_def)
  from generateMonthlyInvoice_tax_total
         [of "[''orders'' \<mapsto> 5]" "[(''platform_fees'', 5000)]"
             "[orders_log ''cust_1'' 2025 1]" "''cust_1''" 2025 1 ?ci] g
  have "tax_amount ?ci = subtotal ?ci * 18 / 100"
    and "total_amount ?ci = subtotal ?ci + tax_amount ?ci"
    by blast+
  with g show ?thesis by simp
qed

text \<open>
  C3. For every invoice that is not paid, the reminder classifier maps the whole days
  overdue (now minus due date) to one overdue action: 3 to 6 days give the reminder
  email, 7 to 14 the final reminder, 15 to 29 the suspension, 30 and more the shutdown,
  fewer than 3 no action. In particular an invoice due 20 days ago yields
  \<open>suspend_account\<close>, one due 35 days ago \<open>shutdown_account\<close>, one due 2 days ago nothing.
\<close>

theorem classify_thresholds:
  "invoice_status i \<noteq> paid \<longrightarrow>
     (3 \<le> days_overdue now (due_date i) \<and> days_overdue now (due_date i) < 7 \<longrightarrow>
        classify now i = Some send_reminder_email)
     \<and> (7 \<le> days_overdue now (due_date i) \<and> days_overdue now (due_date i) < 15 \<longrightarrow>
        classify now i = Some send_final_reminder)
     \<and> (15 \<le> days_overdue now (due_date i) \<and> days_overdue now (due_date i) < 30 \<longrightarrow>
        classify now i = Some suspend_account)
     \<and> (30 \<le> days_overdue now (due_date i) \<longrightarrow> classify now i = Some shutdown_account)
     \<and> (days_overdue now (due_date i) < 3 \<longrightarrow> classify now i = None)
     \<and> classify now (i\<lparr>due_date := now - 20 * 86400\<rparr>) = Some suspend_account
     \<and> classify now (i\<lparr>due_date := now - 35 * 86400\<rparr>) = Some shutdown_account
     \<and> classify now (i\<lparr>due_date := now - 2 * 86400\<rparr>) = None"
  by (simp add: classify_def overdue_action_def days_overdue_def)

theorem classify_thresholds_witness:
  "invoice_status open_invoice \<noteq> paid
   \<and> days_overdue (5 * 86400) (due_date open_invoice) = 5
   \<and> classify (5 * 86400) open_invoice = Some send_reminder_email
   \<and> days_overdue (10 * 86400 + 3600) (due_date open_invoice) = 10
   \<and> classify (10 * 86400 + 3600) open_invoice = Some send_final_reminder
   \<and> days_overdue (20 * 86400) (due_date open_invoice) = 20
   \<and> classify (20 * 86400) open_invoice = Some suspend_account
   \<and> days_overdue (35 * 86400) (due_date open_invoice) = 35
   \<and> classify (35 * 86400) open_invoice = Some shutdown_account
   \<and> days_overdue (3 * 86400 - 1) (due_date open_invoice) = 2
   \<and> classify (3 * 86400 - 1) open_invoice = None"
proof -
  have s: "invoice_status open_invoice \<noteq> paid"
    by (simp add: open_invoice_def)
  have d: "days_overdue (5 * 86400) (due_date open_invoice) = 5"
    "days_overdue (10 * 86400 + 3600) (due_date open_invoice) = 10"
    "days_overdue (20 * 86400) (due_date open_invoice) = 20"
    "days_overdue (35 * 86400) (due_date open_invoice) = 35"
    "days_overdue (3 * 86400 - 1) (due_date open_invoice) = 2"
    by (simp_all add: days_overdue_def open_invoice_def)
  from classify_thresholds [of open_invoice "5 * 86400"] s d(1)
  have c1: "classify (5 * 86400) open_invoice = Some send_reminder_email" by simp
  from classify_thresholds [of open_invoice "10 * 86400 + 3600"] s d(2)
  have c2: "classify (10 * 86400 + 3600) open_invoice = Some send_final_reminder" by simp
  from classify_thresholds [of open_invoice "20 * 86400"] s d(3)
  have c3: "classify (20 * 86400) open_invoice = Some suspend_account" by simp
  from classify_thresholds [of open_invoice "35 * 86400"] s d(4)
  have c4: "classify (35 * 86400) open_invoice = Some shutdown_account" by simp
  from classify_thresholds [of open_invoice "3 * 86400 - 1"] s d(5)
  have c5: "classify (3 * 86400 - 1) open_invoice = None" by simp
  from s d c1 c2 c3 c4 c5 show ?thesis by blast
qed

text \<open>
  C4. \<open>recordPayment\<close> with an amount that is not positive fails with
  \<open>InvalidAmountError\<close> and leaves the whole state as it was (invoices with their
  payment histories, paid amounts and statuses, and the customers' account statuses).
  With a positive amount, on an invoice of the ledger, it appends exactly one payment
  record (the payment given) to that invoice's history and raises its paid amount by
  the amount.
\<close>

theorem recordPayment_amount:
  "(amt \<le> 0 \<longrightarrow> recordPayment st iid amt meth ref notes now = (Inl InvalidAmountError, st))
   \<and> (0 < amt \<and> ledger_invoices st iid = Some i \<longrightarrow>
        (\<exists>i'. fst (recordPayment st iid amt meth ref notes now) = Inr i'
           \<and> ledger_invoices (snd (recordPayment st iid amt meth ref notes now)) iid = Some i'
           \<and> payment_history i' = payment_history i @
                [\<lparr>pay_amount = amt, pay_method = meth, pay_reference = ref,
                  pay_notes = notes, pay_timestamp = now\<rparr>]
           \<and> length (payment_history i') = length (payment_history i) + 1
           \<and> invoice_paid i' = invoice_paid i + amt))"
  by (simp add: recordPayment_rejects recordPayment_accepts)

theorem recordPayment_amount_witness:
  "(0::rat) \<le> 0
   \<and> recordPayment example_ledger ''inv_1'' 0 ''upi'' ''TXN0'' None 2000
       = (Inl InvalidAmountError, example_ledger)
   \<and> (0::rat) < 3850 \<and> ledger_invoices example_ledger ''inv_1'' = Some open_invoice
   \<and> (\<exists>i'. fst (recordPayment example_ledger ''inv_1'' 3850 ''upi'' ''TXN456'' None 2000) = Inr i'
         \<and> payment_history i' =
             [first_payment,
              \<lparr>pay_amount = 3850, pay_method = ''upi'', pay_reference = ''TXN456'',
                pay_notes = None, pay_timestamp = 2000\<rparr>]
         \<and> invoice_paid i' = 8850)"
proof -
  have f: "ledger_invoices example_ledger ''inv_1'' = Some open_invoice"
    by (simp add: example_ledger_def)
  have h: "payment_history open_invoice = [first_payment]" "invoice_paid open_invoice = 5000"
    by (simp_all add: open_invoice_def)
  from recordPayment_amount [of 0 example_ledger "''inv_1''" "''upi''" "''TXN0''" None 2000]
  have r: "recordPayment example_ledger ''inv_1'' 0 ''upi'' ''TXN0'' None 2000
       = (Inl InvalidAmountError, example_ledger)"
    by simp
  from recordPayment_amount
         [of 3850 example_ledger "''inv_1''" "''upi''" "''TXN456''" None 2000 open_invoice] f
  have "\<exists>i'. fst (recordPayment example_ledger ''inv_1'' 3850 ''upi'' ''TXN456'' None 2000) = Inr i'
         \<and> payment_history i' = payment_history open_invoice @
              [\<lparr>pay_amount = 3850, pay_method = ''upi'', pay_reference = ''TXN456'',
                pay_notes = None, pay_timestamp = 2000\<rparr>]
         \<and> invoice_paid i' = invoice_paid open_invoice + 3850"
    by fastforce
  then have "\<exists>i'. fst (recordPayment example_ledger ''inv_1'' 3850 ''upi'' ''TXN456'' None 2000) = Inr i'
         \<and> payment_history i' =
             [first_payment,
              \<lparr>pay_amount = 3850, pay_method = ''upi'', pay_reference = ''TXN456'',
                pay_notes = None, pay_timestamp = 2000\<rparr>]
         \<and> invoice_paid i' = 8850"
    by (simp add: h)
  with r f show ?thesis by simp
qed

text \<open>
  C5. When the owner of an invoice is suspended, a recorded payment that makes the
  invoice fully paid sets the owner's account status to active. A customer whose
  account status is shutdown keeps that status through every call of \<open>recordPayment\<close>.
\<close>

theorem recordPayment_reactivation:
  "(0 < amt \<and> ledger_invoices st iid = Some i \<and> accounts st (owner_id i) = Some suspended
      \<and> invoice_total i \<le> invoice_paid i + amt \<longrightarrow>
      accounts (snd (recordPayment st iid amt meth ref notes now)) (owner_id i) = Some active)
   \<and> (accounts st c = Some shutdown \<longrightarrow>
        accounts (snd (recordPayment st iid amt meth ref notes now)) c = Some shutdown)"
  by (simp add: recordPayment_reactivates recordPayment_shutdown)

theorem recordPayment_reactivation_witness:
  "(0::rat) < 3850 \<and> ledger_invoices example_ledger ''inv_1'' = Some open_invoice
   \<and> accounts example_ledger (owner_id open_invoice) = Some suspended
   \<and> invoice_total open_invoice \<le> invoice_paid open_invoice + 3850
   \<and> accounts (snd (recordPayment example_ledger ''inv_1'' 3850 ''upi'' ''TXN456'' None 2000))
        ''cust_1'' = Some active
   \<and> accounts example_ledger ''cust_2'' = Some shutdown
   \<and> accounts (snd (recordPayment example_ledger ''inv_1'' 3850 ''upi'' ''TXN456'' None 2000))
        ''cust_2'' = Some shutdown"
proof -
  have f: "ledger_invoices example_ledger ''inv_1'' = Some open_invoice"
    by (simp add: example_ledger_def)
  have o: "owner_id open_invoice = ''cust_1''"
    by (simp add: open_invoice_def)
  have a: "accounts example_ledger (owner_id open_invoice) = Some suspended"
    "accounts example_ledger ''cust_2'' = Some shutdown"
    by (simp_all add: example_ledger_def o)
  have t: "invoice_total open_invoice \<le> invoice_paid open_invoice + 3850"
    by (simp add: open_invoice_def)
  from recordPayment_reactivation
         [of 3850 example_ledger "''inv_1''" open_invoice "''upi''" "''TXN456''" None 2000
             "''cust_2''"] f a t
  have "accounts (snd (recordPayment example_ledger ''inv_1'' 3850 ''upi'' ''TXN456'' None 2000))
          (owner_id open_invoice) = Some active"
    and "accounts (snd (recordPayment example_ledger ''inv_1'' 3850 ''upi'' ''TXN456'' None 2000))
          ''cust_2'' = Some shutdown"
    by simp_all
  with f a t o show ?thesis by simp
qed

end
